theory Spec2Isabelle
  imports Main "HOL-Library.Sublist"
begin

section \<open>The logger of \<^verbatim>\<open>logger.hpp\<close>\<close>

subsection \<open>Enumerations and the static members\<close>

text \<open>
  \<^verbatim>\<open>enum StreamType { NONE, CONSOLE, FILE }\<close> and
  \<^verbatim>\<open>enum LogType { INFO, DEBUG, SUCCESS, ERROR, ALL }\<close>.
  The enumerator \<^verbatim>\<open>ALL\<close> is written \<open>ALL'\<close>: \<open>ALL\<close> is the ASCII
  input form of the universal quantifier.
\<close>

datatype StreamType = NONE | CONSOLE | FILE

datatype LogType = INFO | DEBUG | SUCCESS | ERROR | ALL'

text \<open>
  The two mutable static members of the class: \<^verbatim>\<open>stream_type_\<close> and the
  \<^verbatim>\<open>std::unordered_set<LogType> log_type_\<close>.
  A name cannot end with an underscore here, so the fields are \<open>stream_type'\<close> and
  \<open>log_type'\<close>.
\<close>

record logger =
  stream_type' :: StreamType
  log_type' :: "LogType set"

text \<open>The in-class initialisers \<^verbatim>\<open>stream_type_{console}\<close> and \<^verbatim>\<open>log_type_{all}\<close>.\<close>

definition Logger_init :: logger where
  "Logger_init = \<lparr>stream_type' = CONSOLE, log_type' = {ALL'}\<rparr>"

text \<open>\<^verbatim>\<open>unordered_set::count\<close>: 1 for a member, 0 otherwise.\<close>

definition count_us :: "'a set \<Rightarrow> 'a \<Rightarrow> nat" where
  "count_us S x = (if x \<in> S then 1 else 0)"

subsection \<open>The string constants\<close>

definition log_file_name :: string where
  "log_file_name = ''log.txt''"

definition error_type :: string where
  "error_type = ''[ERROR]:''"

definition debug_type :: string where
  "debug_type = ''[DEBUG]:''"

definition success_type :: string where
  "success_type = ''[SUCCESS]:''"

text \<open>The coloured tags start with the escape character \<^verbatim>\<open>\033\<close>, byte 27.\<close>

definition error_type_color :: string where
  "error_type_color = CHR 0x1B # ''[31m[ERROR]:'' @ CHR 0x1B # ''[0m''"

definition debug_type_color :: string where
  "debug_type_color = CHR 0x1B # ''[33m[DEBUG]:'' @ CHR 0x1B # ''[0m''"

definition success_type_color :: string where
  "success_type_color = CHR 0x1B # ''[32m[SUCCESS]:'' @ CHR 0x1B # ''[0m''"

subsection \<open>What \<^verbatim>\<open>operator<<\<close> writes\<close>

text \<open>
  The broken-down time \<^verbatim>\<open>struct tm\<close> with the nine members of the C standard:
  \<open>tm_year\<close> counts from 1900, \<open>tm_mon\<close> from 0.
\<close>

record tm =
  tm_sec :: int
  tm_min :: int
  tm_hour :: int
  tm_mday :: int
  tm_mon :: int
  tm_year :: int
  tm_wday :: int
  tm_yday :: int
  tm_isdst :: int

text \<open>The character of the last decimal digit of a number.\<close>

definition digit :: "nat \<Rightarrow> char" where
  "digit d = ''0123456789'' ! (d mod 10)"

text \<open>The decimal digits of a natural number, most significant first.\<close>

fun dec :: "nat \<Rightarrow> string" where
  "dec n = (if n < 10 then [digit n] else dec (n div 10) @ [digit n])"

declare dec.simps [simp del]

text \<open>\<^verbatim>\<open>stream << int\<close> in the default (decimal) format.\<close>

definition show_int :: "int \<Rightarrow> string" where
  "show_int i = (if i < 0 then CHR ''-'' # dec (nat (- i)) else dec (nat i))"

text \<open>A number in a field of two characters, zero-filled (\<^verbatim>\<open>%m %d %H %M %S\<close>).\<close>

definition pad2 :: "int \<Rightarrow> string" where
  "pad2 i = (if 0 \<le> i \<and> i < 10 then CHR ''0'' # show_int i else show_int i)"

text \<open>
  What the C library's \<^verbatim>\<open>strftime\<close> makes of a broken-down time and a format string.
  It is not code of this repository, so it is a parameter.
\<close>

type_synonym strftime = "tm \<Rightarrow> string \<Rightarrow> string"

text \<open>
  \<^verbatim>\<open>std::put_time\<close> writes what \<^verbatim>\<open>strftime\<close> produces. The six conversions the
  format string of \<^verbatim>\<open>CurrentTime\<close> contains are written out here, and so are the
  characters outside conversions, which are copied. From the first other conversion on
  (\<^verbatim>\<open>%%\<close>, a \<^verbatim>\<open>%\<close> at the end, \<^verbatim>\<open>%a\<close>, ...) the rest of the format is left to the
  library.
\<close>

fun put_time :: "strftime \<Rightarrow> tm \<Rightarrow> string \<Rightarrow> string" where
  "put_time lib t [] = []"
| "put_time lib t [c] = (if c = CHR ''%'' then lib t [c] else [c])"
| "put_time lib t (c # d # fmt) =
     (if c = CHR ''%'' then
        (if d = CHR ''Y'' then show_int (1900 + tm_year t) @ put_time lib t fmt
         else if d = CHR ''m'' then pad2 (tm_mon t + 1) @ put_time lib t fmt
         else if d = CHR ''d'' then pad2 (tm_mday t) @ put_time lib t fmt
         else if d = CHR ''H'' then pad2 (tm_hour t) @ put_time lib t fmt
         else if d = CHR ''M'' then pad2 (tm_min t) @ put_time lib t fmt
         else if d = CHR ''S'' then pad2 (tm_sec t) @ put_time lib t fmt
         else lib t (c # d # fmt))
      else c # put_time lib t (d # fmt))"

text \<open>
  The object \<^verbatim>\<open>std::put_time\<close> returns keeps a \<^verbatim>\<open>const tm*\<close>, not a copy. The
  pointer either goes to the one static \<^verbatim>\<open>struct tm\<close> that \<^verbatim>\<open>gmtime\<close> fills and
  returns, or to a \<^verbatim>\<open>struct tm\<close> of the caller's own; no function of the logger writes
  to the latter, so it is held by its content.
\<close>

datatype tm_ptr = Static_tm | Own_tm tm

text \<open>
  The arguments of the variadic templates: each is a value some \<^verbatim>\<open>operator<<\<close>
  accepts. \<open>Str\<close> is a \<^verbatim>\<open>const char*\<close> or \<^verbatim>\<open>std::string\<close>, \<open>Num\<close> an
  \<^verbatim>\<open>int\<close>, \<open>Chr\<close> a \<^verbatim>\<open>char\<close>, \<open>Flag\<close> a \<^verbatim>\<open>bool\<close> (written 1 or 0, no
  \<^verbatim>\<open>boolalpha\<close> is set), \<open>Put_time\<close> the object \<^verbatim>\<open>std::put_time\<close> returns.
\<close>

datatype item = Str string | Num int | Chr char | Flag bool | Put_time tm_ptr string

subsection \<open>The process state outside the class\<close>

text \<open>
  What the functions read and write besides the static members: the bytes written so far
  to \<^verbatim>\<open>std::cout\<close> and \<^verbatim>\<open>std::cerr\<close>, the content of the file \<^verbatim>\<open>log.txt\<close>
  (\<open>None\<close> while it does not exist), whether opening it for appending succeeds, the
  broken-down UTC time of the system clock at the call (\<open>gmtime_now\<close>), the content of the
  static \<^verbatim>\<open>struct tm\<close> of \<^verbatim>\<open>gmtime\<close> (\<open>gmtime_static\<close>), and the C library's
  \<^verbatim>\<open>strftime\<close>.
\<close>

record world =
  cout :: string
  cerr :: string
  log_txt :: "string option"
  can_open :: bool
  gmtime_now :: tm
  gmtime_static :: tm
  strftime_libc :: strftime

type_synonym state = "logger \<times> world"

text \<open>The content of \<^verbatim>\<open>log.txt\<close>, empty when the file does not exist.\<close>

definition file_bytes :: "world \<Rightarrow> string" where
  "file_bytes w = (case log_txt w of None \<Rightarrow> [] | Some old \<Rightarrow> old)"

text \<open>Reading the \<^verbatim>\<open>struct tm\<close> a pointer goes to, at the moment of the read.\<close>

fun deref :: "world \<Rightarrow> tm_ptr \<Rightarrow> tm" where
  "deref w Static_tm = gmtime_static w"
| "deref w (Own_tm t) = t"

text \<open>
  \<^verbatim>\<open>stream << item\<close>. A \<^verbatim>\<open>put_time\<close> object reads its \<^verbatim>\<open>struct tm\<close> when it is
  written, not when it was made.
\<close>

fun show_item :: "world \<Rightarrow> item \<Rightarrow> string" where
  "show_item w (Str s) = s"
| "show_item w (Num i) = show_int i"
| "show_item w (Chr c) = [c]"
| "show_item w (Flag b) = (if b then ''1'' else ''0'')"
| "show_item w (Put_time p fmt) = put_time (strftime_libc w) (deref w p) fmt"

subsection \<open>The member functions\<close>

definition SetStream :: "StreamType \<Rightarrow> state \<Rightarrow> state" where
  "SetStream stream_type = (\<lambda>(L, w). (L\<lparr>stream_type' := stream_type\<rparr>, w))"

text \<open>\<^verbatim>\<open>log_type_.clear()\<close>, then one \<^verbatim>\<open>insert\<close> for each element of the list in order.\<close>

definition SetLogType :: "LogType list \<Rightarrow> state \<Rightarrow> state" where
  "SetLogType log_type_list =
     (\<lambda>(L, w). (L\<lparr>log_type' := foldl (\<lambda>S log_type. insert log_type S) {} log_type_list\<rparr>, w))"

text \<open>
  \<^verbatim>\<open>LogRecursive\<close> on a stream whose content so far is the second argument: each item
  is followed by one space, the empty pack ends the line (\<^verbatim>\<open>std::endl\<close>). It changes
  nothing but the stream; the environment is there for the items to be read in.
\<close>

fun LogRecursive :: "world \<Rightarrow> string \<Rightarrow> item list \<Rightarrow> string" where
  "LogRecursive w stream [] = stream @ [CHR 0x0A]"
| "LogRecursive w stream (item # args) = LogRecursive w (stream @ show_item w item @ '' '') args"

text \<open>
  \<^verbatim>\<open>CurrentTime\<close>: \<^verbatim>\<open>gmtime\<close> overwrites its static \<^verbatim>\<open>struct tm\<close> with the time of the
  system clock and returns a pointer to it, which the \<^verbatim>\<open>put_time\<close> object keeps.
\<close>

definition CurrentTime :: "world \<Rightarrow> item \<times> world" where
  "CurrentTime w =
     (Put_time Static_tm ''[%Y-%m-%d %H:%M:%S]'', w\<lparr>gmtime_static := gmtime_now w\<rparr>)"

text \<open>
  The block \<^verbatim>\<open>{ std::ofstream log_file(log_file_name, binary | app); if
  (log_file.is_open()) LogRecursive(log_file, ...); }\<close> shared by the four functions. A
  successful open in append mode creates a missing file and writes after the old content; a
  failed open leaves everything as it was. The arguments of \<^verbatim>\<open>LogRecursive\<close> are
  evaluated inside the \<^verbatim>\<open>if\<close> and before its body runs: \<^verbatim>\<open>CurrentTime()\<close> has
  overwritten the static \<^verbatim>\<open>struct tm\<close> when the first item is written.
\<close>

definition log_to_file :: "(world \<Rightarrow> item list \<times> world) \<Rightarrow> world \<Rightarrow> world" where
  "log_to_file items w =
     (if can_open w
      then (case items w of
              (args, w') \<Rightarrow> w'\<lparr>log_txt := Some (LogRecursive w' (file_bytes w') args)\<rparr>)
      else w)"

definition LogInfo :: "item list \<Rightarrow> state \<Rightarrow> state" where
  "LogInfo args = (\<lambda>(L, w).
     if count_us (log_type' L) INFO = 0 \<and> count_us (log_type' L) ALL' = 0 then (L, w)
     else (case stream_type' L of
         CONSOLE \<Rightarrow> (L, w\<lparr>cout := LogRecursive w (cout w) args\<rparr>)
       | FILE \<Rightarrow> (L, log_to_file (\<lambda>w. (args, w)) w)
       | NONE \<Rightarrow> (L, w)))"

definition LogDebug :: "string \<Rightarrow> item list \<Rightarrow> state \<Rightarrow> state" where
  "LogDebug function_name args = (\<lambda>(L, w).
     if count_us (log_type' L) DEBUG = 0 \<and> count_us (log_type' L) ALL' = 0 then (L, w)
     else (case stream_type' L of
         CONSOLE \<Rightarrow>
           (L, w\<lparr>cout := LogRecursive w (cout w)
                   (Str debug_type_color # Str function_name # Str '':'' # args)\<rparr>)
       | FILE \<Rightarrow>
           (L, log_to_file
                 (\<lambda>w. case CurrentTime w of
                    (stamp, w') \<Rightarrow>
                      (stamp # Str debug_type # Str function_name # Str '':'' # args, w')) w)
       | NONE \<Rightarrow> (L, w)))"

definition LogError :: "string \<Rightarrow> string \<Rightarrow> int \<Rightarrow> item list \<Rightarrow> state \<Rightarrow> state" where
  "LogError file_name function_name line args = (\<lambda>(L, w).
     if count_us (log_type' L) ERROR = 0 \<and> count_us (log_type' L) ALL' = 0 then (L, w)
     else (case stream_type' L of
         CONSOLE \<Rightarrow>
           (L, w\<lparr>cerr := LogRecursive w (cerr w)
                   (Str error_type_color # Str file_name # Str '':'' # Num line # Str '':''
                    # Str function_name # Str '':'' # args)\<rparr>)
       | FILE \<Rightarrow>
           (L, log_to_file
                 (\<lambda>w. case CurrentTime w of
                    (stamp, w') \<Rightarrow>
                      (stamp # Str error_type # Num line # Str '':''
                       # Str function_name # Str '':'' # args, w')) w)
       | NONE \<Rightarrow> (L, w)))"

definition LogSuccess :: "string \<Rightarrow> state \<Rightarrow> state" where
  "LogSuccess function_name = (\<lambda>(L, w).
     if count_us (log_type' L) SUCCESS = 0 \<and> count_us (log_type' L) ALL' = 0 then (L, w)
     else (case stream_type' L of
         CONSOLE \<Rightarrow>
           (L, w\<lparr>cout := LogRecursive w (cout w) [Str success_type_color, Str function_name]\<rparr>)
       | FILE \<Rightarrow>
           (L, log_to_file
                 (\<lambda>w. case CurrentTime w of
                    (stamp, w') \<Rightarrow> ([stamp, Str success_type, Str function_name], w')) w)
       | NONE \<Rightarrow> (L, w)))"

subsection \<open>The four entry points as one operation\<close>

text \<open>
  A call of one of the four logging functions with its arguments, in the order of the
  parameters: \<^verbatim>\<open>LogInfo(args...)\<close>, \<^verbatim>\<open>LogDebug(function_name, args...)\<close>,
  \<^verbatim>\<open>LogError(file_name, function_name, line, args...)\<close>, \<^verbatim>\<open>LogSuccess(function_name)\<close>.
\<close>

datatype call =
    Info "item list"
  | Debug string "item list"
  | Error string string int "item list"
  | Success string

fun emit :: "call \<Rightarrow> state \<Rightarrow> state" where
  "emit (Info args) = LogInfo args"
| "emit (Debug function_name args) = LogDebug function_name args"
| "emit (Error file_name function_name line args) = LogError file_name function_name line args"
| "emit (Success function_name) = LogSuccess function_name"

text \<open>The category each function looks up in \<^verbatim>\<open>log_type_\<close> besides \<^verbatim>\<open>all\<close>.\<close>

fun category :: "call \<Rightarrow> LogType" where
  "category (Info args) = INFO"
| "category (Debug function_name args) = DEBUG"
| "category (Error file_name function_name line args) = ERROR"
| "category (Success function_name) = SUCCESS"

text \<open>The variadic arguments of a call.\<close>

fun arguments :: "call \<Rightarrow> item list" where
  "arguments (Info args) = args"
| "arguments (Debug function_name args) = args"
| "arguments (Error file_name function_name line args) = args"
| "arguments (Success function_name) = []"

subsection \<open>Vocabulary of the properties\<close>

text \<open>
  A line as the properties describe it: every element as \<^verbatim>\<open>operator<<\<close> writes it,
  followed by one space (\<open>fields\<close>), and a newline after the last one (\<open>joined\<close>).
\<close>

definition fields :: "world \<Rightarrow> item list \<Rightarrow> string" where
  "fields w items = concat (map (\<lambda>i. show_item w i @ '' '') items)"

definition joined :: "world \<Rightarrow> item list \<Rightarrow> string" where
  "joined w items = fields w items @ [CHR 0x0A]"

text \<open>The text of the item \<^verbatim>\<open>CurrentTime()\<close> returns, written once the call has returned.\<close>

definition time_stamp :: "world \<Rightarrow> string" where
  "time_stamp w = show_item (snd (CurrentTime w)) (fst (CurrentTime w))"

text \<open>An argument that is a \<^verbatim>\<open>put_time\<close> object on the static \<^verbatim>\<open>struct tm\<close> of \<^verbatim>\<open>gmtime\<close>.\<close>

fun on_static :: "item \<Rightarrow> bool" where
  "on_static (Put_time Static_tm fmt) = True"
| "on_static _ = False"

text \<open>The bytes a call added to a stream or file whose content was \<open>old\<close> and is now \<open>new\<close>.\<close>

definition written :: "string \<Rightarrow> string \<Rightarrow> string" where
  "written old new = drop (length old) new"

text \<open>A call produced output: one of the three destinations differs from before.\<close>

definition produced_output :: "world \<Rightarrow> world \<Rightarrow> bool" where
  "produced_output w w' = (cout w' \<noteq> cout w \<or> cerr w' \<noteq> cerr w \<or> log_txt w' \<noteq> log_txt w)"

text \<open>
  A string fits a pattern when both have the same length and agree everywhere, except that
  a letter of the pattern stands for any decimal digit.
\<close>

fun fits :: "string \<Rightarrow> string \<Rightarrow> bool" where
  "fits [] [] = True"
| "fits (p # ps) (c # cs) =
     ((if p \<in> set ''YMDHS'' then c \<in> set ''0123456789'' else c = p) \<and> fits ps cs)"
| "fits _ _ = False"

text \<open>
  The ranges of the fields \<^verbatim>\<open>gmtime\<close> fills in (a leap second gives 60), for the
  years that have four digits.
\<close>

definition tm_ok :: "tm \<Rightarrow> bool" where
  "tm_ok t = (0 \<le> tm_sec t \<and> tm_sec t \<le> 60 \<and> 0 \<le> tm_min t \<and> tm_min t \<le> 59
     \<and> 0 \<le> tm_hour t \<and> tm_hour t \<le> 23 \<and> 1 \<le> tm_mday t \<and> tm_mday t \<le> 31
     \<and> 0 \<le> tm_mon t \<and> tm_mon t \<le> 11 \<and> 1000 \<le> 1900 + tm_year t \<and> 1900 + tm_year t \<le> 9999)"

text \<open>
  A sample environment: nothing written yet, no log file, the clock at Tuesday 3 November
  2026, 12:34:56 UTC, the static \<^verbatim>\<open>struct tm\<close> left at Thursday 1 January 1970, 00:00:00
  by an earlier \<^verbatim>\<open>gmtime\<close>, and a library that writes nothing for the conversions
  left to it.
\<close>

definition world0 :: world where
  "world0 = \<lparr>cout = [], cerr = [], log_txt = None, can_open = True,
     gmtime_now = \<lparr>tm_sec = 56, tm_min = 34, tm_hour = 12, tm_mday = 3, tm_mon = 10,
       tm_year = 126, tm_wday = 2, tm_yday = 306, tm_isdst = 0\<rparr>,
     gmtime_static = \<lparr>tm_sec = 0, tm_min = 0, tm_hour = 0, tm_mday = 1, tm_mon = 0,
       tm_year = 70, tm_wday = 4, tm_yday = 0, tm_isdst = 0\<rparr>,
     strftime_libc = (\<lambda>t fmt. [])\<rparr>"

text \<open>A second one: a second later, with a log file that exists already.\<close>

definition world1 :: world where
  "world1 = world0\<lparr>log_txt := Some ''old'', gmtime_now := gmtime_now world0\<lparr>tm_sec := 57\<rparr>\<rparr>"

section \<open>Auxiliary facts\<close>

lemma LogRecursive_joined: "LogRecursive w stream args = stream @ joined w args"
  by (induction args arbitrary: stream) (simp_all add: joined_def fields_def)

lemma joined_Cons: "joined w (i # items) = show_item w i @ '' '' @ joined w items"
  by (simp add: joined_def fields_def)

lemma joined_not_Nil: "joined w args \<noteq> []"
  by (simp add: joined_def)

lemma appended_differs: "Some (file_bytes w @ joined w' args) \<noteq> log_txt w"
  by (cases "log_txt w") (simp_all add: file_bytes_def joined_not_Nil)

lemma foldl_insert_set: "foldl (\<lambda>S x. insert x S) A xs = A \<union> set xs"
  by (induction xs arbitrary: A) simp_all

lemma count_us_0: "count_us S x = 0 \<longleftrightarrow> x \<notin> S"
  by (simp add: count_us_def)

lemma digit_in: "digit d \<in> set ''0123456789''"
proof -
  have "d mod 10 < length ''0123456789''" by simp
  then have "''0123456789'' ! (d mod 10) \<in> set ''0123456789''" by (rule nth_mem)
  then show ?thesis by (simp only: digit_def)
qed

lemma dec_1: "n < 10 \<Longrightarrow> dec n = [digit n]"
  by (subst dec.simps) simp

lemma dec_2: "10 \<le> n \<Longrightarrow> n < 100 \<Longrightarrow> dec n = [digit (n div 10), digit n]"
  by (subst dec.simps) (simp add: dec_1)

lemma dec_3: "100 \<le> n \<Longrightarrow> n < 1000 \<Longrightarrow> dec n = [digit (n div 100), digit (n div 10), digit n]"
  by (subst dec.simps) (simp add: dec_2 div_mult2_eq [symmetric])

lemma dec_4:
  "1000 \<le> n \<Longrightarrow> n < 10000 \<Longrightarrow>
   dec n = [digit (n div 1000), digit (n div 100), digit (n div 10), digit n]"
  by (subst dec.simps) (simp add: dec_3 div_mult2_eq [symmetric])

lemma written_append: "written old (old @ new) = new"
  by (simp add: written_def)

lemma written_same: "written old old = []"
  by (simp add: written_def)

lemma file_bytes_cout [simp]: "file_bytes (w\<lparr>cout := x\<rparr>) = file_bytes w"
  by (simp add: file_bytes_def)

lemma file_bytes_cerr [simp]: "file_bytes (w\<lparr>cerr := x\<rparr>) = file_bytes w"
  by (simp add: file_bytes_def)

lemma file_bytes_gmtime_static [simp]: "file_bytes (w\<lparr>gmtime_static := x\<rparr>) = file_bytes w"
  by (simp add: file_bytes_def)

lemma file_bytes_log_txt [simp]: "file_bytes (w\<lparr>log_txt := Some x\<rparr>) = x"
  by (simp add: file_bytes_def)

subsection \<open>The text of the time stamp\<close>

lemma pad2_form:
  assumes "0 \<le> i" and "i < 100"
  shows "\<exists>a b. pad2 i = [a, b] \<and> a \<in> set ''0123456789'' \<and> b \<in> set ''0123456789''"
proof (cases "i < 10")
  case True
  with assms have "pad2 i = [CHR ''0'', digit (nat i)]"
    by (simp add: pad2_def show_int_def dec_1)
  moreover have "CHR ''0'' \<in> set ''0123456789''"
    by simp
  ultimately show ?thesis
    using digit_in by blast
next
  case False
  with assms have "pad2 i = [digit (nat i div 10), digit (nat i)]"
    by (simp add: pad2_def show_int_def dec_2)
  then show ?thesis
    using digit_in by blast
qed

lemma year_form:
  assumes "1000 \<le> i" and "i \<le> 9999"
  shows "\<exists>a b c d. show_int i = [a, b, c, d] \<and> a \<in> set ''0123456789''
     \<and> b \<in> set ''0123456789'' \<and> c \<in> set ''0123456789'' \<and> d \<in> set ''0123456789''"
proof -
  from assms have "show_int i =
      [digit (nat i div 1000), digit (nat i div 100), digit (nat i div 10), digit (nat i)]"
    by (simp add: show_int_def dec_4)
  then show ?thesis
    using digit_in by blast
qed

lemma time_stamp_text:
  "time_stamp w =
     ''['' @ show_int (1900 + tm_year (gmtime_now w)) @ ''-'' @ pad2 (tm_mon (gmtime_now w) + 1)
     @ ''-'' @ pad2 (tm_mday (gmtime_now w)) @ '' '' @ pad2 (tm_hour (gmtime_now w))
     @ '':'' @ pad2 (tm_min (gmtime_now w)) @ '':'' @ pad2 (tm_sec (gmtime_now w)) @ '']''"
  by (simp add: time_stamp_def CurrentTime_def)

lemma time_stamp_fits:
  assumes "tm_ok (gmtime_now w)"
  shows "fits ''[YYYY-MM-DD HH:MM:SS]'' (time_stamp w)"
proof -
  let ?t = "gmtime_now w"
  let ?D = "set ''0123456789''"
  obtain y1 y2 y3 y4 where y: "show_int (1900 + tm_year ?t) = [y1, y2, y3, y4]"
      "y1 \<in> ?D" "y2 \<in> ?D" "y3 \<in> ?D" "y4 \<in> ?D"
    using year_form [of "1900 + tm_year ?t"] assms unfolding tm_ok_def by blast
  obtain m1 m2 where m: "pad2 (tm_mon ?t + 1) = [m1, m2]" "m1 \<in> ?D" "m2 \<in> ?D"
    using pad2_form [of "tm_mon ?t + 1"] assms unfolding tm_ok_def by force
  obtain d1 d2 where d: "pad2 (tm_mday ?t) = [d1, d2]" "d1 \<in> ?D" "d2 \<in> ?D"
    using pad2_form [of "tm_mday ?t"] assms unfolding tm_ok_def by force
  obtain h1 h2 where h: "pad2 (tm_hour ?t) = [h1, h2]" "h1 \<in> ?D" "h2 \<in> ?D"
    using pad2_form [of "tm_hour ?t"] assms unfolding tm_ok_def by force
  obtain n1 n2 where n: "pad2 (tm_min ?t) = [n1, n2]" "n1 \<in> ?D" "n2 \<in> ?D"
    using pad2_form [of "tm_min ?t"] assms unfolding tm_ok_def by force
  obtain s1 s2 where s: "pad2 (tm_sec ?t) = [s1, s2]" "s1 \<in> ?D" "s2 \<in> ?D"
    using pad2_form [of "tm_sec ?t"] assms unfolding tm_ok_def by force
  show ?thesis
    unfolding time_stamp_text y(1) m(1) d(1) h(1) n(1) s(1)
    using y(2-) m(2-) d(2-) h(2-) n(2-) s(2-) by simp
qed

lemma time_stamp_world0: "time_stamp world0 = ''[2026-11-03 12:34:56]''"
  by (simp add: time_stamp_text world0_def show_int_def pad2_def dec_1 dec_2 dec_4 digit_def)

lemma time_stamp_world1: "time_stamp world1 = ''[2026-11-03 12:34:57]''"
  by (simp add: time_stamp_text world1_def world0_def show_int_def pad2_def dec_1 dec_2 dec_4
      digit_def)

lemma tm_ok_world0: "tm_ok (gmtime_now world0)"
  by (simp add: tm_ok_def world0_def)

lemma show_stamp:
  "show_item (w\<lparr>gmtime_static := gmtime_now w\<rparr>) (Put_time Static_tm ''[%Y-%m-%d %H:%M:%S]'')
     = time_stamp w"
  by (simp add: time_stamp_def CurrentTime_def del: show_item.simps)

subsection \<open>Arguments that do not read the static \<^verbatim>\<open>struct tm\<close>\<close>

lemma show_item_same:
  assumes "strftime_libc w1 = strftime_libc w2" and "\<not> on_static i"
  shows "show_item w1 i = show_item w2 i"
  using assms by (cases i rule: on_static.cases) simp_all

lemma joined_same:
  assumes "strftime_libc w1 = strftime_libc w2" and "\<not> list_ex on_static items"
  shows "joined w1 items = joined w2 items"
proof -
  have "map (\<lambda>i. show_item w1 i @ '' '') items = map (\<lambda>i. show_item w2 i @ '' '') items"
    using assms by (induction items) (simp_all add: show_item_same [of w1 w2])
  then have "fields w1 items = fields w2 items"
    unfolding fields_def by (rule arg_cong)
  then show ?thesis
    by (simp only: joined_def)
qed

subsection \<open>What a call adds to each destination\<close>

lemmas emit_defs = LogInfo_def LogDebug_def LogError_def LogSuccess_def log_to_file_def
  count_us_0 LogRecursive_joined

lemma emit_file:
  assumes "stream_type' L = FILE" and "can_open w"
    and "category c \<in> log_type' L \<or> ALL' \<in> log_type' L"
  shows "snd (emit c (L, w)) = (case c of
        Info args \<Rightarrow> w\<lparr>log_txt := Some (file_bytes w @ joined w args)\<rparr>
      | Debug function_name args \<Rightarrow>
          w\<lparr>gmtime_static := gmtime_now w,
            log_txt := Some (file_bytes w @ time_stamp w @ '' ''
              @ joined (w\<lparr>gmtime_static := gmtime_now w\<rparr>)
                  (Str debug_type # Str function_name # Str '':'' # args))\<rparr>
      | Error file_name function_name line args \<Rightarrow>
          w\<lparr>gmtime_static := gmtime_now w,
            log_txt := Some (file_bytes w @ time_stamp w @ '' ''
              @ joined (w\<lparr>gmtime_static := gmtime_now w\<rparr>)
                  (Str error_type # Num line # Str '':'' # Str function_name # Str '':'' # args))\<rparr>
      | Success function_name \<Rightarrow>
          w\<lparr>gmtime_static := gmtime_now w,
            log_txt := Some (file_bytes w @ time_stamp w @ '' ''
              @ joined (w\<lparr>gmtime_static := gmtime_now w\<rparr>)
                  [Str success_type, Str function_name])\<rparr>)"
proof (cases c)
  case (Info args)
  with assms show ?thesis
    by (auto simp add: emit_defs)
next
  case (Debug function_name args)
  with assms show ?thesis
    by (auto simp add: emit_defs CurrentTime_def joined_Cons [of _ "Put_time Static_tm _"]
        show_stamp simp del: show_item.simps(5))
next
  case (Error file_name function_name line args)
  with assms show ?thesis
    by (auto simp add: emit_defs CurrentTime_def joined_Cons [of _ "Put_time Static_tm _"]
        show_stamp simp del: show_item.simps(5))
next
  case (Success function_name)
  with assms show ?thesis
    by (auto simp add: emit_defs CurrentTime_def joined_Cons [of _ "Put_time Static_tm _"]
        show_stamp simp del: show_item.simps(5))
qed

lemma written_cout:
  "written (cout w) (cout (snd (emit c (L, w)))) =
     (if stream_type' L = CONSOLE \<and> (category c \<in> log_type' L \<or> ALL' \<in> log_type' L) then
        (case c of
           Info args \<Rightarrow> joined w args
         | Debug function_name args \<Rightarrow>
             joined w (Str debug_type_color # Str function_name # Str '':'' # args)
         | Error file_name function_name line args \<Rightarrow> []
         | Success function_name \<Rightarrow> joined w [Str success_type_color, Str function_name])
      else [])"
  by (cases c; cases "stream_type' L")
     (simp_all add: emit_defs written_append written_same CurrentTime_def)

lemma written_cerr:
  "written (cerr w) (cerr (snd (emit c (L, w)))) =
     (if stream_type' L = CONSOLE \<and> (category c \<in> log_type' L \<or> ALL' \<in> log_type' L) then
        (case c of
           Error file_name function_name line args \<Rightarrow>
             joined w (Str error_type_color # Str file_name # Str '':'' # Num line # Str '':''
               # Str function_name # Str '':'' # args)
         | _ \<Rightarrow> [])
      else [])"
  by (cases c; cases "stream_type' L")
     (simp_all add: emit_defs written_append written_same CurrentTime_def)

lemma written_file:
  "written (file_bytes w) (file_bytes (snd (emit c (L, w)))) =
     (if stream_type' L = FILE \<and> can_open w
         \<and> (category c \<in> log_type' L \<or> ALL' \<in> log_type' L) then
        (case c of
           Info args \<Rightarrow> joined w args
         | Debug function_name args \<Rightarrow>
             time_stamp w @ '' ''
             @ joined (w\<lparr>gmtime_static := gmtime_now w\<rparr>)
                 (Str debug_type # Str function_name # Str '':'' # args)
         | Error file_name function_name line args \<Rightarrow>
             time_stamp w @ '' ''
             @ joined (w\<lparr>gmtime_static := gmtime_now w\<rparr>)
                 (Str error_type # Num line # Str '':'' # Str function_name # Str '':'' # args)
         | Success function_name \<Rightarrow>
             time_stamp w @ '' ''
             @ joined (w\<lparr>gmtime_static := gmtime_now w\<rparr>) [Str success_type, Str function_name])
      else [])"
proof (cases "stream_type' L = FILE \<and> can_open w
    \<and> (category c \<in> log_type' L \<or> ALL' \<in> log_type' L)")
  case True
  then show ?thesis
    using emit_file [of L w c] by (cases c) (simp_all add: written_append)
next
  case False
  then have "snd (emit c (L, w)) = w \<or> file_bytes (snd (emit c (L, w))) = file_bytes w"
    by (cases c; cases "stream_type' L") (auto simp add: emit_defs)
  with False show ?thesis
    by (auto simp add: written_same)
qed

section \<open>The properties\<close>

subsection \<open>The configuration\<close>

text \<open>
  C9. Every logging call (Info, Debug, Success, Error), whatever its arguments and the
  configuration, leaves the sink \<^verbatim>\<open>stream_type_\<close> and the category set
  \<^verbatim>\<open>log_type_\<close> as they were: only \<^verbatim>\<open>SetStream\<close> and \<^verbatim>\<open>SetLogType\<close> write them.
\<close>

theorem emit_keeps_configuration:
  "stream_type' (fst (emit c (L, w))) = stream_type' L
   \<and> log_type' (fst (emit c (L, w))) = log_type' L"
  by (cases c) (simp_all add: emit_defs split: StreamType.split)

theorem emit_keeps_configuration_witness:
  "stream_type' (fst (emit (Debug ''main'' [Str ''x'']) (Logger_init, world0))) = CONSOLE
   \<and> log_type' (fst (emit (Debug ''main'' [Str ''x'']) (Logger_init, world0))) = {ALL'}"
  using emit_keeps_configuration [of "Debug ''main'' [Str ''x'']" Logger_init world0]
  by (simp add: Logger_init_def)

text \<open>
  C5. \<^verbatim>\<open>SetLogType\<close> with a list \<open>xs\<close> makes the category set exactly the set of the
  elements of \<open>xs\<close>, whatever it held before, and changes nothing else. So after
  \<^verbatim>\<open>SetLogType({error})\<close> and then \<^verbatim>\<open>SetLogType({debug})\<close> an Error call changes
  nothing, and after \<^verbatim>\<open>SetLogType({})\<close> no call of any category changes anything.
\<close>

theorem SetLogType_replaces:
  "SetLogType xs (L, w) = (L\<lparr>log_type' := set xs\<rparr>, w)
   \<and> emit (Error file_name function_name line args)
         (SetLogType [DEBUG] (SetLogType [ERROR] (L, w)))
       = SetLogType [DEBUG] (SetLogType [ERROR] (L, w))
   \<and> emit c (SetLogType [] (L, w)) = SetLogType [] (L, w)"
proof (intro conjI)
  show "SetLogType xs (L, w) = (L\<lparr>log_type' := set xs\<rparr>, w)"
    by (simp add: SetLogType_def foldl_insert_set)
  show "emit (Error file_name function_name line args)
          (SetLogType [DEBUG] (SetLogType [ERROR] (L, w)))
        = SetLogType [DEBUG] (SetLogType [ERROR] (L, w))"
    by (simp add: SetLogType_def LogError_def count_us_0)
  show "emit c (SetLogType [] (L, w)) = SetLogType [] (L, w)"
    by (cases c) (simp_all add: SetLogType_def emit_defs)
qed

theorem SetLogType_replaces_witness:
  "SetLogType [DEBUG, INFO, DEBUG] (Logger_init, world0)
     = (Logger_init\<lparr>log_type' := {DEBUG, INFO}\<rparr>, world0)
   \<and> snd (emit (Error ''x.cpp'' ''main'' 10 [Str ''boom''])
         (SetLogType [DEBUG] (SetLogType [ERROR] (Logger_init, world0)))) = world0
   \<and> snd (emit (Info [Str ''a'']) (SetLogType [] (Logger_init, world0))) = world0"
proof -
  have twice: "{DEBUG, INFO, DEBUG} = {DEBUG, INFO}"
    by auto
  show ?thesis
    using SetLogType_replaces [of "[DEBUG, INFO, DEBUG]" Logger_init world0
        "''x.cpp''" "''main''" 10 "[Str ''boom'']" "Info [Str ''a'']"]
    by (simp add: SetLogType_def twice)
qed

subsection \<open>Failure to open the log file\<close>

text \<open>
  C6. No logging function has an error result: each is a total function from states to
  states. With the sink set to the file and \<^verbatim>\<open>log.txt\<close> failing to open, a call of any
  of the four writes nothing and returns with the state it was called in.
\<close>

theorem emit_file_unavailable:
  assumes "stream_type' L = FILE" and "\<not> can_open w"
  shows "emit c (L, w) = (L, w)"
  using assms by (cases c) (simp_all add: emit_defs)

theorem emit_file_unavailable_witness:
  "stream_type' (Logger_init\<lparr>stream_type' := FILE\<rparr>) = FILE
   \<and> \<not> can_open (world0\<lparr>can_open := False\<rparr>)
   \<and> emit (Success ''main'') (Logger_init\<lparr>stream_type' := FILE\<rparr>, world0\<lparr>can_open := False\<rparr>)
       = (Logger_init\<lparr>stream_type' := FILE\<rparr>, world0\<lparr>can_open := False\<rparr>)"
  using emit_file_unavailable [of "Logger_init\<lparr>stream_type' := FILE\<rparr>"
      "world0\<lparr>can_open := False\<rparr>" "Success ''main''"]
  by simp

subsection \<open>The console\<close>

text \<open>
  C10. \<^verbatim>\<open>LogInfo()\<close> with no argument, when \<^verbatim>\<open>info\<close> or \<^verbatim>\<open>all\<close> is in the category
  set and the sink is the console, appends exactly one newline to standard output and
  changes nothing else.
\<close>

theorem LogInfo_no_arguments:
  assumes "INFO \<in> log_type' L \<or> ALL' \<in> log_type' L" and "stream_type' L = CONSOLE"
  shows "LogInfo [] (L, w) = (L, w\<lparr>cout := cout w @ [CHR 0x0A]\<rparr>)"
  using assms by (auto simp add: LogInfo_def count_us_0)

theorem LogInfo_no_arguments_witness:
  "(INFO \<in> log_type' Logger_init \<or> ALL' \<in> log_type' Logger_init)
   \<and> stream_type' Logger_init = CONSOLE
   \<and> LogInfo [] (Logger_init, world0) = (Logger_init, world0\<lparr>cout := [CHR 0x0A]\<rparr>)"
  using LogInfo_no_arguments [of Logger_init world0]
  by (simp add: Logger_init_def world0_def)

subsection \<open>The category filter\<close>

text \<open>
  C1, as stated: a call of category \<open>c\<close> produces output exactly when \<open>c\<close> or \<^verbatim>\<open>all\<close>
  is in the category set. It fails at the file sink when \<^verbatim>\<open>log.txt\<close> does not open:
  \<^verbatim>\<open>all\<close> is in the set and \<^verbatim>\<open>LogInfo("a")\<close> produces no output.
\<close>

theorem emit_output_iff_counterexample:
  "ALL' \<in> log_type' (Logger_init\<lparr>stream_type' := FILE\<rparr>)
   \<and> \<not> produced_output (world0\<lparr>can_open := False\<rparr>)
        (snd (emit (Info [Str ''a''])
           (Logger_init\<lparr>stream_type' := FILE\<rparr>, world0\<lparr>can_open := False\<rparr>)))"
  by (simp add: Logger_init_def world0_def emit_defs produced_output_def)

text \<open>
  C1, amended. A call of category \<open>c\<close> produces output exactly when \<open>c\<close> or \<^verbatim>\<open>all\<close> is
  in the category set and the sink is the console, or the file and \<^verbatim>\<open>log.txt\<close> opens.
  When neither \<open>c\<close> nor \<^verbatim>\<open>all\<close> is in the set, the call returns the state it was
  called in.
\<close>

theorem emit_output_iff:
  "(produced_output w (snd (emit c (L, w))) \<longleftrightarrow>
      (category c \<in> log_type' L \<or> ALL' \<in> log_type' L)
      \<and> (stream_type' L = CONSOLE \<or> stream_type' L = FILE \<and> can_open w))
   \<and> (category c \<notin> log_type' L \<and> ALL' \<notin> log_type' L \<longrightarrow> emit c (L, w) = (L, w))"
  by (cases c; cases "stream_type' L")
     (auto simp add: emit_defs CurrentTime_def produced_output_def joined_not_Nil
        appended_differs)

theorem emit_output_iff_witness:
  "ALL' \<in> log_type' Logger_init \<and> stream_type' Logger_init = CONSOLE
   \<and> produced_output world0 (snd (emit (Info [Str ''a'']) (Logger_init, world0)))
   \<and> category (Success ''main'') \<notin> log_type' (Logger_init\<lparr>log_type' := {ERROR}\<rparr>)
   \<and> ALL' \<notin> log_type' (Logger_init\<lparr>log_type' := {ERROR}\<rparr>)
   \<and> emit (Success ''main'') (Logger_init\<lparr>log_type' := {ERROR}\<rparr>, world0)
       = (Logger_init\<lparr>log_type' := {ERROR}\<rparr>, world0)"
  using emit_output_iff [of world0 "Info [Str ''a'']" Logger_init]
    emit_output_iff [of world0 "Success ''main''" "Logger_init\<lparr>log_type' := {ERROR}\<rparr>"]
  by (simp add: Logger_init_def)

subsection \<open>The initial state\<close>

text \<open>
  C7. Before any configuration call the sink is the console and the category set is
  \<open>{all}\<close>; so every call of every category produces output, and none of it goes to the
  file.
\<close>

theorem Logger_initial_state:
  "stream_type' Logger_init = CONSOLE \<and> log_type' Logger_init = {ALL'}
   \<and> produced_output w (snd (emit c (Logger_init, w)))
   \<and> log_txt (snd (emit c (Logger_init, w))) = log_txt w"
  by (cases c) (simp_all add: emit_defs Logger_init_def produced_output_def joined_not_Nil)

theorem Logger_initial_state_witness:
  "produced_output world0 (snd (emit (Success ''main'') (Logger_init, world0)))
   \<and> log_txt (snd (emit (Success ''main'') (Logger_init, world0))) = None"
  using Logger_initial_state [of world0 "Success ''main''"]
  by (simp add: world0_def)

subsection \<open>The lines on the console\<close>

text \<open>
  C4. With the console as sink and the category passing the filter, \<^verbatim>\<open>LogError\<close>
  appends its line to \<^verbatim>\<open>std::cerr\<close> and leaves \<^verbatim>\<open>std::cout\<close> alone, while
  \<^verbatim>\<open>LogInfo\<close>, \<^verbatim>\<open>LogDebug\<close> and \<^verbatim>\<open>LogSuccess\<close> append theirs to \<^verbatim>\<open>std::cout\<close> and
  leave \<^verbatim>\<open>std::cerr\<close> alone, for every argument list.
\<close>

theorem console_streams:
  assumes "stream_type' L = CONSOLE" and "category c \<in> log_type' L \<or> ALL' \<in> log_type' L"
  shows "snd (emit c (L, w)) = (case c of
       Info args \<Rightarrow> w\<lparr>cout := cout w @ joined w args\<rparr>
     | Debug function_name args \<Rightarrow>
         w\<lparr>cout := cout w
            @ joined w (Str debug_type_color # Str function_name # Str '':'' # args)\<rparr>
     | Error file_name function_name line args \<Rightarrow>
         w\<lparr>cerr := cerr w @ joined w (Str error_type_color # Str file_name # Str '':'' # Num line
                    # Str '':'' # Str function_name # Str '':'' # args)\<rparr>
     | Success function_name \<Rightarrow>
         w\<lparr>cout := cout w @ joined w [Str success_type_color, Str function_name]\<rparr>)"
  using assms by (cases c) (auto simp add: emit_defs)

theorem console_streams_witness:
  "stream_type' Logger_init = CONSOLE
   \<and> (category (Error ''x.cpp'' ''main'' 10 [Str ''boom'']) \<in> log_type' Logger_init
        \<or> ALL' \<in> log_type' Logger_init)
   \<and> snd (emit (Error ''x.cpp'' ''main'' 10 [Str ''boom'']) (Logger_init, world0))
       = world0\<lparr>cerr := CHR 0x1B # ''[31m[ERROR]:'' @ CHR 0x1B # ''[0m x.cpp : 10 : main : boom ''
                   @ [CHR 0x0A]\<rparr>"
  using console_streams [of Logger_init "Error ''x.cpp'' ''main'' 10 [Str ''boom'']" world0]
  by (simp add: Logger_init_def world0_def joined_def fields_def error_type_color_def
      show_int_def dec_2 digit_def)

text \<open>
  C3, as stated: after \<^verbatim>\<open>SetStream(console)\<close> and \<^verbatim>\<open>SetLogType({info})\<close>,
  \<^verbatim>\<open>LogInfo("a", 1)\<close> writes the bytes \<^verbatim>\<open>a 1\n\<close>. It writes a space after the last
  element too: the bytes are \<^verbatim>\<open>a 1 \n\<close>.
\<close>

theorem LogInfo_a_1_counterexample:
  "cout (snd (LogInfo [Str ''a'', Num 1]
       (SetLogType [INFO] (SetStream CONSOLE (Logger_init, world0))))) = ''a 1 '' @ [CHR 0x0A]
   \<and> cout (snd (LogInfo [Str ''a'', Num 1]
       (SetLogType [INFO] (SetStream CONSOLE (Logger_init, world0))))) \<noteq> ''a 1'' @ [CHR 0x0A]"
  by (simp add: SetLogType_def SetStream_def emit_defs joined_def fields_def world0_def
      show_int_def dec_1 digit_def)

text \<open>
  C3, amended. After \<^verbatim>\<open>SetStream(console)\<close> and \<^verbatim>\<open>SetLogType({info})\<close>,
  \<^verbatim>\<open>LogInfo("a", 1)\<close> appends to standard output exactly the bytes \<^verbatim>\<open>a 1 \n\<close> (each
  element, the last one included, followed by one space, then the newline) and changes
  nothing else; a call of any other category changes nothing.
\<close>

theorem LogInfo_a_1:
  "snd (LogInfo [Str ''a'', Num 1] (SetLogType [INFO] (SetStream CONSOLE (L, w))))
     = w\<lparr>cout := cout w @ ''a 1 '' @ [CHR 0x0A]\<rparr>
   \<and> (category c \<noteq> INFO \<longrightarrow>
        emit c (SetLogType [INFO] (SetStream CONSOLE (L, w)))
          = SetLogType [INFO] (SetStream CONSOLE (L, w)))"
  by (cases c)
     (simp_all add: SetLogType_def SetStream_def emit_defs joined_def fields_def
        show_int_def dec_1 digit_def)

theorem LogInfo_a_1_witness:
  "category (Debug ''main'' [Str ''x'']) \<noteq> INFO
   \<and> snd (LogInfo [Str ''a'', Num 1] (SetLogType [INFO] (SetStream CONSOLE (Logger_init, world0))))
      = world0\<lparr>cout := ''a 1 '' @ [CHR 0x0A]\<rparr>
   \<and> snd (emit (Debug ''main'' [Str ''x''])
        (SetLogType [INFO] (SetStream CONSOLE (Logger_init, world0)))) = world0"
  using LogInfo_a_1 [of Logger_init world0 "Debug ''main'' [Str ''x'']"]
  by (simp add: SetLogType_def SetStream_def world0_def)

subsection \<open>The log file\<close>

text \<open>
  C2, as stated: with the file as sink and \<^verbatim>\<open>log.txt\<close> open, the line of every call
  starts with the time stamp and the plain tag, and the Error line contains the caller's
  file name. \<^verbatim>\<open>LogInfo("a")\<close> writes \<^verbatim>\<open>a \n\<close>, with neither time stamp nor tag, and the
  line of \<^verbatim>\<open>LogError("x.cpp", "main", 10, "boom")\<close> does not contain \<^verbatim>\<open>x.cpp\<close>.
\<close>

theorem file_line_counterexample:
  "snd (emit (Info [Str ''a'']) (Logger_init\<lparr>stream_type' := FILE\<rparr>, world0))
     = world0\<lparr>log_txt := Some (''a '' @ [CHR 0x0A])\<rparr>
   \<and> time_stamp world0 = ''[2026-11-03 12:34:56]''
   \<and> \<not> prefix ''[2026-11-03 12:34:56]'' (''a '' @ [CHR 0x0A])
   \<and> snd (emit (Error ''x.cpp'' ''main'' 10 [Str ''boom''])
         (Logger_init\<lparr>stream_type' := FILE\<rparr>, world0))
     = world0\<lparr>gmtime_static := gmtime_now world0, log_txt :=
         Some (''[2026-11-03 12:34:56] [ERROR]: 10 : main : boom '' @ [CHR 0x0A])\<rparr>
   \<and> \<not> sublist ''x.cpp'' (''[2026-11-03 12:34:56] [ERROR]: 10 : main : boom '' @ [CHR 0x0A])"
proof (intro conjI)
  have w0: "file_bytes world0 = []" "can_open world0"
    by (simp_all add: world0_def file_bytes_def)
  have all: "ALL' \<in> log_type' (Logger_init\<lparr>stream_type' := FILE\<rparr>)"
    by (simp add: Logger_init_def)
  show "snd (emit (Info [Str ''a'']) (Logger_init\<lparr>stream_type' := FILE\<rparr>, world0))
     = world0\<lparr>log_txt := Some (''a '' @ [CHR 0x0A])\<rparr>"
    using w0 all emit_file [of "Logger_init\<lparr>stream_type' := FILE\<rparr>" world0 "Info [Str ''a'']"]
    by (simp add: joined_def fields_def)
  show "time_stamp world0 = ''[2026-11-03 12:34:56]''"
    by (rule time_stamp_world0)
  show "\<not> prefix ''[2026-11-03 12:34:56]'' (''a '' @ [CHR 0x0A])"
    by simp
  show "snd (emit (Error ''x.cpp'' ''main'' 10 [Str ''boom''])
         (Logger_init\<lparr>stream_type' := FILE\<rparr>, world0))
     = world0\<lparr>gmtime_static := gmtime_now world0, log_txt :=
         Some (''[2026-11-03 12:34:56] [ERROR]: 10 : main : boom '' @ [CHR 0x0A])\<rparr>"
    using w0 all emit_file [of "Logger_init\<lparr>stream_type' := FILE\<rparr>" world0
        "Error ''x.cpp'' ''main'' 10 [Str ''boom'']"]
    by (simp add: time_stamp_world0 joined_def fields_def error_type_def
        show_int_def dec_2 digit_def)
  show "\<not> sublist ''x.cpp'' (''[2026-11-03 12:34:56] [ERROR]: 10 : main : boom '' @ [CHR 0x0A])"
    by (simp add: sublist_code(3))
qed

text \<open>
  C2, amended. With the file as sink, \<^verbatim>\<open>log.txt\<close> open and the category passing the
  filter, the call appends one line to the file. For Debug and Success the line is the time
  stamp, the plain tag, then what the console line has after its tag (function name,
  \<^verbatim>\<open>:\<close>, the items; for Success the function name). For Error the line starts with the
  time stamp and the plain tag \<^verbatim>\<open>[ERROR]:\<close> and ends with the line number, \<^verbatim>\<open>:\<close>, the
  function name, \<^verbatim>\<open>:\<close> and the items. For Info the line is the items alone, with
  neither time stamp nor tag, and nothing but the file changes. Debug, Error and Success
  also leave the time of the call in the static \<^verbatim>\<open>struct tm\<close> of \<^verbatim>\<open>gmtime\<close>, and
  their items are written after that: an item that is a \<^verbatim>\<open>put_time\<close> object on that
  \<^verbatim>\<open>struct tm\<close> shows the time of the call. The time stamp has the form
  \<^verbatim>\<open>[YYYY-MM-DD HH:MM:SS]\<close> whenever the fields \<^verbatim>\<open>gmtime\<close> returned are in range and
  the year has four digits.
\<close>

theorem file_line:
  assumes "stream_type' L = FILE" and "can_open w"
    and "category c \<in> log_type' L \<or> ALL' \<in> log_type' L"
  shows "(\<exists>mid. snd (emit c (L, w)) = (case c of
        Info args \<Rightarrow> w\<lparr>log_txt := Some (file_bytes w @ joined w args)\<rparr>
      | Debug function_name args \<Rightarrow>
          w\<lparr>gmtime_static := gmtime_now w,
            log_txt := Some (file_bytes w @ time_stamp w @ '' '' @ debug_type @ '' ''
              @ joined (w\<lparr>gmtime_static := gmtime_now w\<rparr>)
                  (Str function_name # Str '':'' # args))\<rparr>
      | Error file_name function_name line args \<Rightarrow>
          w\<lparr>gmtime_static := gmtime_now w,
            log_txt := Some (file_bytes w @ time_stamp w @ '' '' @ error_type @ '' '' @ mid
              @ joined (w\<lparr>gmtime_static := gmtime_now w\<rparr>)
                  (Num line # Str '':'' # Str function_name # Str '':'' # args))\<rparr>
      | Success function_name \<Rightarrow>
          w\<lparr>gmtime_static := gmtime_now w,
            log_txt := Some (file_bytes w @ time_stamp w @ '' '' @ success_type @ '' ''
              @ joined (w\<lparr>gmtime_static := gmtime_now w\<rparr>) [Str function_name])\<rparr>))
    \<and> (tm_ok (gmtime_now w) \<longrightarrow> fits ''[YYYY-MM-DD HH:MM:SS]'' (time_stamp w))"
proof
  show "tm_ok (gmtime_now w) \<longrightarrow> fits ''[YYYY-MM-DD HH:MM:SS]'' (time_stamp w)"
    by (rule impI) (rule time_stamp_fits)
  show "\<exists>mid. snd (emit c (L, w)) = (case c of
        Info args \<Rightarrow> w\<lparr>log_txt := Some (file_bytes w @ joined w args)\<rparr>
      | Debug function_name args \<Rightarrow>
          w\<lparr>gmtime_static := gmtime_now w,
            log_txt := Some (file_bytes w @ time_stamp w @ '' '' @ debug_type @ '' ''
              @ joined (w\<lparr>gmtime_static := gmtime_now w\<rparr>)
                  (Str function_name # Str '':'' # args))\<rparr>
      | Error file_name function_name line args \<Rightarrow>
          w\<lparr>gmtime_static := gmtime_now w,
            log_txt := Some (file_bytes w @ time_stamp w @ '' '' @ error_type @ '' '' @ mid
              @ joined (w\<lparr>gmtime_static := gmtime_now w\<rparr>)
                  (Num line # Str '':'' # Str function_name # Str '':'' # args))\<rparr>
      | Success function_name \<Rightarrow>
          w\<lparr>gmtime_static := gmtime_now w,
            log_txt := Some (file_bytes w @ time_stamp w @ '' '' @ success_type @ '' ''
              @ joined (w\<lparr>gmtime_static := gmtime_now w\<rparr>) [Str function_name])\<rparr>)"
    using emit_file [OF assms]
    by (intro exI [of _ "[]"], cases c) (simp_all add: joined_Cons [of _ "Str _"])
qed

theorem file_line_witness:
  "stream_type' (Logger_init\<lparr>stream_type' := FILE\<rparr>) = FILE \<and> can_open world0
   \<and> (category (Debug ''main'' [Str ''x'']) \<in> log_type' (Logger_init\<lparr>stream_type' := FILE\<rparr>)
        \<or> ALL' \<in> log_type' (Logger_init\<lparr>stream_type' := FILE\<rparr>))
   \<and> tm_ok (gmtime_now world0)
   \<and> snd (emit (Debug ''main'' [Str ''x'']) (Logger_init\<lparr>stream_type' := FILE\<rparr>, world0))
       = world0\<lparr>gmtime_static := gmtime_now world0,
           log_txt := Some (''[2026-11-03 12:34:56] [DEBUG]: main : x '' @ [CHR 0x0A])\<rparr>
   \<and> fits ''[YYYY-MM-DD HH:MM:SS]'' ''[2026-11-03 12:34:56]''"
proof -
  have w0: "file_bytes world0 = []" "can_open world0"
    by (simp_all add: world0_def file_bytes_def)
  show ?thesis
    using file_line [of "Logger_init\<lparr>stream_type' := FILE\<rparr>" world0 "Debug ''main'' [Str ''x'']"]
      tm_ok_world0 w0
    by (simp add: Logger_init_def time_stamp_world0 debug_type_def joined_def fields_def)
qed

subsection \<open>Repeated calls\<close>

text \<open>
  C8, as stated: two calls of the same function with the same arguments under the same
  sink and category set write the same bytes, except for the time stamp at the file sink.
  It fails for \<^verbatim>\<open>LogDebug("main", put_time(gmtime(&t), "%S"))\<close> at the file sink, called
  at 12:34:56 and again at 12:34:57 with \<^verbatim>\<open>log.txt\<close> opening both times: the item reads
  the static \<^verbatim>\<open>struct tm\<close> that \<^verbatim>\<open>CurrentTime()\<close> has just overwritten, so the lines
  end with 56 and with 57 and differ after the time stamp as well. It also fails for
  \<^verbatim>\<open>LogSuccess("main")\<close> at the file sink when \<^verbatim>\<open>log.txt\<close> opens for one call and not
  for the other: one call writes a line, the other nothing.
\<close>

theorem repeated_calls_counterexample:
  "can_open world0 \<and> can_open world1
   \<and> written (file_bytes world0)
        (file_bytes (snd (emit (Debug ''main'' [Put_time Static_tm ''%S''])
           (Logger_init\<lparr>stream_type' := FILE\<rparr>, world0))))
     = ''[2026-11-03 12:34:56] [DEBUG]: main : 56 '' @ [CHR 0x0A]
   \<and> written (file_bytes world1)
        (file_bytes (snd (emit (Debug ''main'' [Put_time Static_tm ''%S''])
           (Logger_init\<lparr>stream_type' := FILE\<rparr>, world1))))
     = ''[2026-11-03 12:34:57] [DEBUG]: main : 57 '' @ [CHR 0x0A]
   \<and> time_stamp world0 = ''[2026-11-03 12:34:56]''
   \<and> time_stamp world1 = ''[2026-11-03 12:34:57]''
   \<and> drop (length (time_stamp world0)) (''[2026-11-03 12:34:56] [DEBUG]: main : 56 '' @ [CHR 0x0A])
     \<noteq> drop (length (time_stamp world1))
         (''[2026-11-03 12:34:57] [DEBUG]: main : 57 '' @ [CHR 0x0A])
   \<and> written (file_bytes world0)
        (file_bytes (snd (emit (Success ''main'') (Logger_init\<lparr>stream_type' := FILE\<rparr>, world0))))
     = ''[2026-11-03 12:34:56] [SUCCESS]: main '' @ [CHR 0x0A]
   \<and> written (file_bytes (world0\<lparr>can_open := False\<rparr>))
        (file_bytes (snd (emit (Success ''main'')
           (Logger_init\<lparr>stream_type' := FILE\<rparr>, world0\<lparr>can_open := False\<rparr>))))
     = []"
proof (intro conjI)
  have all: "ALL' \<in> log_type' (Logger_init\<lparr>stream_type' := FILE\<rparr>)"
    by (simp add: Logger_init_def)
  show "written (file_bytes world0)
        (file_bytes (snd (emit (Success ''main'') (Logger_init\<lparr>stream_type' := FILE\<rparr>, world0))))
     = ''[2026-11-03 12:34:56] [SUCCESS]: main '' @ [CHR 0x0A]"
    using all written_file [of world0 "Success ''main''" "Logger_init\<lparr>stream_type' := FILE\<rparr>"]
    by (simp add: time_stamp_world0 joined_def fields_def success_type_def)
       (simp add: world0_def)
  show "written (file_bytes (world0\<lparr>can_open := False\<rparr>))
        (file_bytes (snd (emit (Success ''main'')
           (Logger_init\<lparr>stream_type' := FILE\<rparr>, world0\<lparr>can_open := False\<rparr>))))
     = []"
    using written_file [of "world0\<lparr>can_open := False\<rparr>" "Success ''main''"
        "Logger_init\<lparr>stream_type' := FILE\<rparr>"]
    by simp
  show open0: "can_open world0" and open1: "can_open world1"
    by (simp_all add: world0_def world1_def)
  have sec0: "show_item (world0\<lparr>gmtime_static := gmtime_now world0\<rparr>) (Put_time Static_tm ''%S'')
      = ''56''"
    by (simp add: world0_def pad2_def show_int_def dec_2 digit_def)
  have sec1: "show_item (world1\<lparr>gmtime_static := gmtime_now world1\<rparr>) (Put_time Static_tm ''%S'')
      = ''57''"
    by (simp add: world1_def world0_def pad2_def show_int_def dec_2 digit_def)
  show "written (file_bytes world0)
        (file_bytes (snd (emit (Debug ''main'' [Put_time Static_tm ''%S''])
           (Logger_init\<lparr>stream_type' := FILE\<rparr>, world0))))
     = ''[2026-11-03 12:34:56] [DEBUG]: main : 56 '' @ [CHR 0x0A]"
    using open0 all written_file [of world0 "Debug ''main'' [Put_time Static_tm ''%S'']"
        "Logger_init\<lparr>stream_type' := FILE\<rparr>"]
    by (simp add: time_stamp_world0 joined_Cons sec0 debug_type_def del: show_item.simps(5))
       (simp add: joined_def fields_def)
  show "written (file_bytes world1)
        (file_bytes (snd (emit (Debug ''main'' [Put_time Static_tm ''%S''])
           (Logger_init\<lparr>stream_type' := FILE\<rparr>, world1))))
     = ''[2026-11-03 12:34:57] [DEBUG]: main : 57 '' @ [CHR 0x0A]"
    using open1 all written_file [of world1 "Debug ''main'' [Put_time Static_tm ''%S'']"
        "Logger_init\<lparr>stream_type' := FILE\<rparr>"]
    by (simp add: time_stamp_world1 joined_Cons sec1 debug_type_def del: show_item.simps(5))
       (simp add: joined_def fields_def)
  show "time_stamp world0 = ''[2026-11-03 12:34:56]''"
    by (rule time_stamp_world0)
  show "time_stamp world1 = ''[2026-11-03 12:34:57]''"
    by (rule time_stamp_world1)
  show "drop (length (time_stamp world0)) (''[2026-11-03 12:34:56] [DEBUG]: main : 56 '' @ [CHR 0x0A])
     \<noteq> drop (length (time_stamp world1))
         (''[2026-11-03 12:34:57] [DEBUG]: main : 57 '' @ [CHR 0x0A])"
    by (simp add: time_stamp_world0 time_stamp_world1)
qed

text \<open>
  C8, amended. Take two calls of the same function with the same arguments under the same
  sink and category set, in two environments with the same C library where opening
  \<^verbatim>\<open>log.txt\<close> has the same outcome, and let no argument be a \<^verbatim>\<open>put_time\<close> object on
  the static \<^verbatim>\<open>struct tm\<close> of \<^verbatim>\<open>gmtime\<close>. Then the two calls add the same bytes to
  standard output and to standard error; what they add to the file is either the same too,
  or the time stamp of each call followed by one common rest.
\<close>

theorem repeated_calls:
  assumes "can_open w1 = can_open w2" and "strftime_libc w1 = strftime_libc w2"
    and "\<not> list_ex on_static (arguments c)"
  shows "written (cout w1) (cout (snd (emit c (L, w1))))
      = written (cout w2) (cout (snd (emit c (L, w2))))
    \<and> written (cerr w1) (cerr (snd (emit c (L, w1))))
      = written (cerr w2) (cerr (snd (emit c (L, w2))))
    \<and> (written (file_bytes w1) (file_bytes (snd (emit c (L, w1))))
          = written (file_bytes w2) (file_bytes (snd (emit c (L, w2))))
        \<or> (\<exists>rest. written (file_bytes w1) (file_bytes (snd (emit c (L, w1))))
                     = time_stamp w1 @ rest
                 \<and> written (file_bytes w2) (file_bytes (snd (emit c (L, w2))))
                     = time_stamp w2 @ rest))"
proof -
  have now: "joined w1 (arguments c) = joined w2 (arguments c)"
    using assms(2,3) by (rule joined_same)
  have after: "joined (w1\<lparr>gmtime_static := gmtime_now w1\<rparr>) (arguments c)
      = joined (w2\<lparr>gmtime_static := gmtime_now w2\<rparr>) (arguments c)"
    using assms(2,3) by (intro joined_same) simp_all
  show ?thesis
    unfolding written_cout written_cerr written_file
    using assms(1) now after by (cases c) (auto simp add: joined_Cons [of _ "Str _"]
        joined_Cons [of _ "Num _"])
qed

theorem repeated_calls_witness:
  "can_open world0 = can_open world1 \<and> strftime_libc world0 = strftime_libc world1
   \<and> \<not> list_ex on_static (arguments (Debug ''main'' [Str ''x'', Put_time (Own_tm (gmtime_now world0)) ''%S'']))
   \<and> (written (file_bytes world0)
         (file_bytes (snd (emit (Debug ''main'' [Str ''x'', Put_time (Own_tm (gmtime_now world0)) ''%S''])
            (Logger_init\<lparr>stream_type' := FILE\<rparr>, world0))))
        = written (file_bytes world1)
            (file_bytes (snd (emit (Debug ''main'' [Str ''x'', Put_time (Own_tm (gmtime_now world0)) ''%S''])
               (Logger_init\<lparr>stream_type' := FILE\<rparr>, world1))))
      \<or> (\<exists>rest. written (file_bytes world0)
              (file_bytes (snd (emit (Debug ''main'' [Str ''x'', Put_time (Own_tm (gmtime_now world0)) ''%S''])
                 (Logger_init\<lparr>stream_type' := FILE\<rparr>, world0))))
            = time_stamp world0 @ rest
          \<and> written (file_bytes world1)
              (file_bytes (snd (emit (Debug ''main'' [Str ''x'', Put_time (Own_tm (gmtime_now world0)) ''%S''])
                 (Logger_init\<lparr>stream_type' := FILE\<rparr>, world1))))
            = time_stamp world1 @ rest))"
proof -
  have same: "can_open world0 = can_open world1" "strftime_libc world0 = strftime_libc world1"
    by (simp_all add: world1_def)
  have own: "\<not> list_ex on_static
      (arguments (Debug ''main'' [Str ''x'', Put_time (Own_tm (gmtime_now world0)) ''%S'']))"
    by simp
  show ?thesis
    using same own repeated_calls [OF same own, of "Logger_init\<lparr>stream_type' := FILE\<rparr>"]
    by blast
qed

end
